theory Spec2Isabelle
  imports Main "HOL-Library.Word"
begin

section \<open>Strings\<close>

text \<open>
  A JavaScript string is a sequence of UTF-16 code units, and so it is here: \<open>substring\<close>
  and \<open>includes\<close> count and compare code units, and a character outside the basic plane
  (an emoji of the program's literals) is its surrogate pair. \<open>js\<close> reads an ASCII literal
  as such a string.
\<close>

type_synonym code_unit = "16 word"

type_synonym jsstring = "code_unit list"

definition js :: "string \<Rightarrow> jsstring" where
  "js s = map of_char s"

text \<open>
  White space as the pattern class \<open>\s\<close> and \<open>trim\<close> have it: the ECMAScript
  \<open>WhiteSpace\<close> and \<open>LineTerminator\<close> code points, which are TAB, LF, VT, FF, CR, SPACE,
  U+00A0, U+1680, U+2000 to U+200A, U+2028, U+2029, U+202F, U+205F, U+3000 and U+FEFF.
  All of them lie in the basic plane, so each is one code unit, and no half of a
  surrogate pair is among them. (U+180E, a space separator before Unicode 6.3, is not
  white space in ECMAScript 2016 and later.)
\<close>

definition is_space :: "code_unit \<Rightarrow> bool" where
  "is_space c \<longleftrightarrow>
     c = 0x0009 \<or> c = 0x000A \<or> c = 0x000B \<or> c = 0x000C \<or> c = 0x000D \<or> c = 0x0020 \<or>
     c = 0x00A0 \<or> c = 0x1680 \<or> (0x2000 \<le> c \<and> c \<le> 0x200A) \<or>
     c = 0x2028 \<or> c = 0x2029 \<or> c = 0x202F \<or> c = 0x205F \<or> c = 0x3000 \<or> c = 0xFEFF"

text \<open>\<open>strip_prefix p s\<close>: the rest of \<open>s\<close> after the literal \<open>p\<close>, when \<open>s\<close> starts with it.\<close>

fun strip_prefix :: "jsstring \<Rightarrow> jsstring \<Rightarrow> jsstring option" where
  "strip_prefix [] s = Some s"
| "strip_prefix (p # ps) [] = None"
| "strip_prefix (p # ps) (c # cs) = (if p = c then strip_prefix ps cs else None)"

text \<open>\<open>String.prototype.includes\<close>: the pattern occurs at some position.\<close>

fun String_includes :: "jsstring \<Rightarrow> jsstring \<Rightarrow> bool" where
  "String_includes [] p = (p = [])"
| "String_includes (c # cs) p = (strip_prefix p (c # cs) \<noteq> None \<or> String_includes cs p)"

text \<open>
  \<open>toLowerCase\<close> is modelled on the letters A to Z, every other code unit being left as it
  is. JavaScript also lowers the capital letters outside ASCII; the only ones whose lower
  case contains an ASCII letter are U+212A, which becomes \<open>k\<close>, and U+0130, which becomes
  \<open>i\<close> followed by U+0307. The program only asks whether the lowered text includes one of
  \<open>iphone\<close>, \<open>android\<close>, \<open>chart\<close>, \<open>graph\<close>, \<open>data\<close>, \<open>comparison\<close>: none of them holds a
  \<open>k\<close> or ends in \<open>i\<close>, so these tests have the same answer on both lowerings.
\<close>

definition lower_unit :: "code_unit \<Rightarrow> code_unit" where
  "lower_unit c = (if 0x0041 \<le> c \<and> c \<le> 0x005A then c + 0x0020 else c)"

definition toLowerCase :: "jsstring \<Rightarrow> jsstring" where
  "toLowerCase s = map lower_unit s"

definition trim :: "jsstring \<Rightarrow> jsstring" where
  "trim s = rev (dropWhile is_space (rev (dropWhile is_space s)))"

text \<open>\<open>xs.slice(-n)\<close>: the last \<open>n\<close> elements, all of them when there are fewer.\<close>

definition slice_last :: "nat \<Rightarrow> 'a list \<Rightarrow> 'a list" where
  "slice_last n xs = drop (length xs - n) xs"

text \<open>\<open>s.substring(0, n)\<close>: the first \<open>n\<close> code units, all of them when there are fewer.\<close>

definition substring0 :: "nat \<Rightarrow> jsstring \<Rightarrow> jsstring" where
  "substring0 n s = take n s"

subsection \<open>The link pattern\<close>

text \<open>
  \<^verbatim>\<open>/https:\/\/(www\.)?linkedin\.com\/posts\/[^\s]+/g\<close>.
  \<open>match_path\<close> matches \<^verbatim>\<open>linkedin\.com\/posts\/[^\s]+\<close> at the start of its input,
  \<open>match_at\<close> the whole pattern; both return the matched text and the rest of the input.
  The optional group is tried first with \<open>www.\<close> and then without, the final
  \<^verbatim>\<open>[^\s]+\<close> is greedy and needs one code unit. The pattern has no \<open>u\<close> flag, so
  it advances by code units.
\<close>

definition match_path :: "jsstring \<Rightarrow> (jsstring \<times> jsstring) option" where
  "match_path s =
     (case strip_prefix (js ''linkedin.com/posts/'') s of
        None \<Rightarrow> None
      | Some r \<Rightarrow>
          (let tok = takeWhile (\<lambda>c. \<not> is_space c) r in
           if tok = [] then None
           else Some (js ''linkedin.com/posts/'' @ tok, dropWhile (\<lambda>c. \<not> is_space c) r)))"

definition match_at :: "jsstring \<Rightarrow> (jsstring \<times> jsstring) option" where
  "match_at s =
     (case strip_prefix (js ''https://'') s of
        None \<Rightarrow> None
      | Some r1 \<Rightarrow>
          (case (case strip_prefix (js ''www.'') r1 of
                   None \<Rightarrow> None
                 | Some r2 \<Rightarrow> map_option (\<lambda>(m, rest). (js ''www.'' @ m, rest)) (match_path r2)) of
             Some (m, rest) \<Rightarrow> Some (js ''https://'' @ m, rest)
           | None \<Rightarrow> map_option (\<lambda>(m, rest). (js ''https://'' @ m, rest)) (match_path r1)))"

text \<open>
  The global scan of \<open>String.prototype.match\<close>: at a match, take it and go on after it;
  otherwise go on one code unit further.
\<close>

function match_all :: "jsstring \<Rightarrow> jsstring list" where
  "match_all [] = []"
| "match_all (c # cs) =
     (case match_at (c # cs) of
        Some (m, rest) \<Rightarrow> m # match_all rest
      | None \<Rightarrow> match_all cs)"
  by pat_completeness auto
termination
proof (relation "measure length")
  show "wf (measure length)" by simp
next
  fix c :: code_unit and cs :: jsstring and x2 :: "jsstring \<times> jsstring" and m rest :: jsstring
  assume at: "match_at (c # cs) = Some x2" and x2: "(m, rest) = x2"
  have strip: "length r \<le> length s" if "strip_prefix p s = Some r" for p s r
    using that by (induction p s rule: strip_prefix.induct) (auto split: if_splits)
  have strip1: "length r < length s" if "strip_prefix (a # p) s = Some r" for a p s r
    using that strip [of p "tl s" r] by (cases s) (auto split: if_splits)
  have path: "length r \<le> length s" if "match_path s = Some (t, r)" for s t r
  proof -
    from that obtain r0 where r0: "strip_prefix (js ''linkedin.com/posts/'') s = Some r0"
      and r: "r = dropWhile (\<lambda>c. \<not> is_space c) r0"
      by (auto simp: match_path_def Let_def split: option.splits if_splits)
    have "length r \<le> length r0" unfolding r by (rule length_dropWhile_le)
    with strip [OF r0] show ?thesis by simp
  qed
  from at x2 obtain r1 where r1: "strip_prefix (js ''https://'') (c # cs) = Some r1"
    and cases: "(\<exists>r2 t. strip_prefix (js ''www.'') r1 = Some r2 \<and> match_path r2 = Some (t, rest))
                 \<or> (\<exists>t. match_path r1 = Some (t, rest))"
    by (fastforce simp: match_at_def split: option.splits)
  have "js ''https://'' = of_char CHR ''h'' # js ''ttps://''" by (simp add: js_def)
  with strip1 [of "of_char CHR ''h''" "js ''ttps://''" "c # cs" r1] r1
  have lt: "length r1 < length (c # cs)" by simp
  from cases have "length rest \<le> length r1"
  proof
    assume "\<exists>r2 t. strip_prefix (js ''www.'') r1 = Some r2 \<and> match_path r2 = Some (t, rest)"
    then obtain r2 t where "strip_prefix (js ''www.'') r1 = Some r2" "match_path r2 = Some (t, rest)"
      by blast
    with strip [of "js ''www.''" r1 r2] path [of r2 t rest] show ?thesis by simp
  next
    assume "\<exists>t. match_path r1 = Some (t, rest)"
    with path show ?thesis by blast
  qed
  with lt show "(rest, c # cs) \<in> measure length" by simp
next
  fix c :: code_unit and cs :: jsstring
  assume "match_at (c # cs) = None"
  show "(cs, c # cs) \<in> measure length" by simp
qed

text \<open>
  \<open>text.match(re)\<close> with a global pattern: \<open>null\<close> when nothing matches, else the array of
  all matches in source order.
\<close>

definition String_match :: "jsstring \<Rightarrow> jsstring list option" where
  "String_match s = (case match_all s of [] \<Rightarrow> None | m # ms \<Rightarrow> Some (m # ms))"

text \<open>The texts that the pattern describes.\<close>

definition is_link :: "jsstring \<Rightarrow> bool" where
  "is_link m \<longleftrightarrow>
     (\<exists>www tok. (www = [] \<or> www = js ''www.'') \<and> tok \<noteq> [] \<and> (\<forall>c \<in> set tok. \<not> is_space c) \<and>
        m = js ''https://'' @ www @ js ''linkedin.com/posts/'' @ tok)"

section \<open>Log records and the files that hold them\<close>

text \<open>
  A log record is an object literal whose properties are strings or \<open>null\<close>; reading a
  property that the object lacks gives \<open>undefined\<close>, here \<open>None\<close>. Property names, file
  names and the tags of console lines are fixed by the program and never computed on:
  they are kept as plain literals.
\<close>

datatype jsval = JNull | JString jsstring

type_synonym jsobject = "(string \<times> jsval) list"

definition get_prop :: "jsobject \<Rightarrow> string \<Rightarrow> jsval option" where
  "get_prop obj k = map_of obj k"

text \<open>What a template literal \<^verbatim>\<open>${v}\<close> renders.\<close>

definition template :: "jsval option \<Rightarrow> jsstring" where
  "template v = (case v of None \<Rightarrow> js ''undefined'' | Some JNull \<Rightarrow> js ''null'' | Some (JString s) \<Rightarrow> s)"

text \<open>
  The text of a file is either text that \<open>JSON.parse\<close> rejects, or JSON text. JSON text is
  identified with the value it denotes, of a type \<open>'v\<close> that the store leaves open:
  \<open>JSON.parse\<close> gives back whatever value the text denotes, an array of records
  (\<^typ>\<open>jsobject list\<close>), \<open>null\<close> or anything else, and \<open>JSON.stringify\<close> writes the text of
  a value. That \<open>JSON.parse\<close> inverts \<open>JSON.stringify\<close> is part of this identification;
  it holds of the arrays of records that the program writes, whose properties are
  strings or \<open>null\<close>, and the indentation carries nothing. On such values
  \<open>JSON.stringify\<close> does not throw.
\<close>

datatype 'v file_text = Malformed string | Json 'v

datatype exn = Error string

definition JSON_stringify :: "'v \<Rightarrow> 'v file_text" where
  "JSON_stringify d = Json d"

definition JSON_parse :: "'v file_text \<Rightarrow> exn + 'v" where
  "JSON_parse t = (case t of Malformed s \<Rightarrow> Inl (Error ''SyntaxError'') | Json d \<Rightarrow> Inr d)"

definition POSTS_FILE :: string where
  "POSTS_FILE = ''data/posts.json''"

definition PROMPTS_FILE :: string where
  "PROMPTS_FILE = ''data/prompts.json''"

section \<open>The chat platform, the generation service and the clock\<close>

text \<open>
  The fields of the events and of the calls that the handlers read and write. The
  authentication token, which every call carries from the environment, is left out.
\<close>

record message =
  msg_text :: "jsstring option"
  msg_user :: "jsstring option"
  msg_channel :: jsstring
  msg_ts :: jsstring

record command =
  cmd_text :: jsstring
  cmd_channel_id :: jsstring

datatype reaction =
  Reaction (reaction_channel: jsstring) (reaction_timestamp: jsstring) (reaction_name: jsstring)

datatype reply = Reply (reply_text: jsstring) (reply_thread_ts: jsstring)

datatype block = Section jsstring | Image jsstring jsstring | Context jsstring

datatype post = Post (post_channel: jsstring) (post_text: jsstring) (post_blocks: "block list")

text \<open>The temperature is kept in tenths: 7 stands for 0.7.\<close>

datatype completion_request =
  Completion (model: jsstring) (system_content: jsstring) (user_content: jsstring)
    (max_tokens: nat) (temperature_tenths: nat)

datatype image_request =
  ImageRequest (image_model: jsstring) (image_prompt: jsstring) (image_size: jsstring)
    (image_quality: jsstring) (image_n: nat)

text \<open>
  What the outside world answers, fixed for one run of a handler: which files cannot be read
  or written, whether each call to the chat platform is rejected, what the generation
  service answers, and what the clock shows at its \<open>n\<close>-th reading.

  An answer of the generation service is \<open>Inr s\<close> when the call returns a response in
  which the field that the code reads, \<open>choices[0].message.content\<close> or \<open>data[0].url\<close>,
  is the string \<open>s\<close>. It is \<open>Inl\<close> when the code throws at this step: the call is
  rejected, or the response has no \<open>choices[0]\<close>, no \<open>message\<close> or no \<open>data[0]\<close>, so that
  reading through it throws inside the same \<open>try\<close>. A response that has these but
  whose \<open>content\<close> is \<open>null\<close> or whose \<open>url\<close> is missing does not throw: the code goes
  on with \<open>null\<close> or \<open>undefined\<close> for the text. Such responses are outside this model,
  which has no answer standing for them.
\<close>

record env =
  unreadable :: "string \<Rightarrow> bool"
  unwritable :: "string \<Rightarrow> bool"
  reactions_add_error :: "reaction \<Rightarrow> exn option"
  say_error :: "reply \<Rightarrow> exn option"
  postMessage_result :: "post \<Rightarrow> exn + jsstring"
  ack_error :: "exn option"
  respond_error :: "jsstring \<Rightarrow> exn option"
  chat_completion :: "completion_request \<Rightarrow> exn + jsstring"
  image_generation :: "image_request \<Rightarrow> exn + jsstring"
  toISOString_at :: "nat \<Rightarrow> jsstring"
  now_at :: "nat \<Rightarrow> jsstring"

text \<open>
  The state a handler acts on: the files, the operator console, what the chat platform has
  accepted (reactions, threaded replies, posted messages, acknowledgements, responses), the
  calls issued to the generation service, and how often the clock has been read. \<open>'v\<close> is
  the type of the values that the JSON files denote.
\<close>

record 'v world =
  files :: "string \<Rightarrow> 'v file_text option"
  console :: "(string \<times> exn) list"
  reactions :: "reaction list"
  replies :: "reply list"
  posted :: "post list"
  acks :: nat
  responses :: "jsstring list"
  chat_calls :: "completion_request list"
  image_calls :: "image_request list"
  clock_reads :: nat

text \<open>An asynchronous computation: it changes the world and returns a value or throws.\<close>

type_synonym ('a, 'v) async = "'v world \<Rightarrow> (exn + 'a) \<times> 'v world"

definition returnE :: "'a \<Rightarrow> ('a, 'v) async" where
  "returnE a = (\<lambda>w. (Inr a, w))"

definition bindE :: "('a, 'v) async \<Rightarrow> ('a \<Rightarrow> ('b, 'v) async) \<Rightarrow> ('b, 'v) async" where
  "bindE m k = (\<lambda>w. case m w of (Inl x, w1) \<Rightarrow> (Inl x, w1) | (Inr a, w1) \<Rightarrow> k a w1)"

text \<open>\<open>try { m } catch (error) { h error }\<close>\<close>

definition catchE :: "('a, 'v) async \<Rightarrow> (exn \<Rightarrow> ('a, 'v) async) \<Rightarrow> ('a, 'v) async" where
  "catchE m h = (\<lambda>w. case m w of (Inl x, w1) \<Rightarrow> h x w1 | (Inr a, w1) \<Rightarrow> (Inr a, w1))"

definition fs_readFile :: "env \<Rightarrow> string \<Rightarrow> ('v file_text, 'v) async" where
  "fs_readFile e filename =
     (\<lambda>w. case files w filename of
            None \<Rightarrow> (Inl (Error ''ENOENT''), w)
          | Some t \<Rightarrow> if unreadable e filename then (Inl (Error ''EACCES''), w) else (Inr t, w))"

text \<open>A write replaces the whole file; a rejected write is taken to leave it as it was.\<close>

definition fs_writeFile :: "env \<Rightarrow> string \<Rightarrow> 'v file_text \<Rightarrow> (unit, 'v) async" where
  "fs_writeFile e filename t =
     (\<lambda>w. if unwritable e filename then (Inl (Error ''EACCES''), w)
          else (Inr (), w\<lparr>files := (files w)(filename \<mapsto> t)\<rparr>))"

definition console_error :: "string \<Rightarrow> exn \<Rightarrow> (unit, 'v) async" where
  "console_error tag error = (\<lambda>w. (Inr (), w\<lparr>console := console w @ [(tag, error)]\<rparr>))"

definition new_Date_toISOString :: "env \<Rightarrow> (jsstring, 'v) async" where
  "new_Date_toISOString e =
     (\<lambda>w. (Inr (toISOString_at e (clock_reads w)), w\<lparr>clock_reads := Suc (clock_reads w)\<rparr>))"

definition Date_now_toString :: "env \<Rightarrow> (jsstring, 'v) async" where
  "Date_now_toString e =
     (\<lambda>w. (Inr (now_at e (clock_reads w)), w\<lparr>clock_reads := Suc (clock_reads w)\<rparr>))"

definition reactions_add :: "env \<Rightarrow> reaction \<Rightarrow> (unit, 'v) async" where
  "reactions_add e r =
     (\<lambda>w. case reactions_add_error e r of
            Some x \<Rightarrow> (Inl x, w)
          | None \<Rightarrow> (Inr (), w\<lparr>reactions := reactions w @ [r]\<rparr>))"

definition say :: "env \<Rightarrow> reply \<Rightarrow> (unit, 'v) async" where
  "say e r =
     (\<lambda>w. case say_error e r of
            Some x \<Rightarrow> (Inl x, w)
          | None \<Rightarrow> (Inr (), w\<lparr>replies := replies w @ [r]\<rparr>))"

text \<open>\<open>chat.postMessage\<close> returns the timestamp the platform gave the message.\<close>

definition chat_postMessage :: "env \<Rightarrow> post \<Rightarrow> (jsstring, 'v) async" where
  "chat_postMessage e p =
     (\<lambda>w. case postMessage_result e p of
            Inl x \<Rightarrow> (Inl x, w)
          | Inr t \<Rightarrow> (Inr t, w\<lparr>posted := posted w @ [p]\<rparr>))"

definition ack :: "env \<Rightarrow> (unit, 'v) async" where
  "ack e =
     (\<lambda>w. case ack_error e of
            Some x \<Rightarrow> (Inl x, w)
          | None \<Rightarrow> (Inr (), w\<lparr>acks := Suc (acks w)\<rparr>))"

definition respond :: "env \<Rightarrow> jsstring \<Rightarrow> (unit, 'v) async" where
  "respond e s =
     (\<lambda>w. case respond_error e s of
            Some x \<Rightarrow> (Inl x, w)
          | None \<Rightarrow> (Inr (), w\<lparr>responses := responses w @ [s]\<rparr>))"

definition chat_completions_create :: "env \<Rightarrow> completion_request \<Rightarrow> (jsstring, 'v) async" where
  "chat_completions_create e r = (\<lambda>w. (chat_completion e r, w\<lparr>chat_calls := chat_calls w @ [r]\<rparr>))"

definition images_generate :: "env \<Rightarrow> image_request \<Rightarrow> (jsstring, 'v) async" where
  "images_generate e r = (\<lambda>w. (image_generation e r, w\<lparr>image_calls := image_calls w @ [r]\<rparr>))"

section \<open>Persistent log store\<close>

text \<open>
  \<open>loadData\<close> returns what \<open>JSON.parse\<close> gives for the text of the file, as it is and
  whatever it is, and the empty array literal of its \<open>catch\<close> branch when reading or
  parsing throws.
\<close>

datatype 'v loaded = Parsed 'v | Empty_array

definition loadData :: "env \<Rightarrow> string \<Rightarrow> ('v loaded, 'v) async" where
  "loadData e filename =
     catchE
       (bindE (fs_readFile e filename) (\<lambda>data.
        bindE (\<lambda>w. (JSON_parse data, w)) (\<lambda>parsed.
        returnE (Parsed parsed))))
       (\<lambda>error. returnE Empty_array)"

definition saveData :: "env \<Rightarrow> string \<Rightarrow> 'v \<Rightarrow> (unit, 'v) async" where
  "saveData e filename data =
     catchE
       (fs_writeFile e filename (JSON_stringify data))
       (\<lambda>error. console_error ''Error saving data:'' error)"

text \<open>
  The handlers use what \<open>loadData\<close> returns as an array of records (\<open>length\<close>, \<open>slice\<close>,
  \<open>forEach\<close>, \<open>push\<close>). They are modelled on the worlds whose JSON files denote arrays of
  records, where this is what it is; what a handler does with a loaded value of another
  shape is not modelled.
\<close>

type_synonym 'a io = "('a, jsobject list) async"

fun records_of :: "(jsobject list) loaded \<Rightarrow> jsobject list" where
  "records_of (Parsed d) = d"
| "records_of Empty_array = []"

text \<open>What \<open>loadData\<close> returns for a file, and the log as a handler sees it.\<close>

definition loaded_of :: "env \<Rightarrow> string \<Rightarrow> 'v world \<Rightarrow> 'v loaded" where
  "loaded_of e filename w =
     (case fst (loadData e filename w) of Inl _ \<Rightarrow> Empty_array | Inr d \<Rightarrow> d)"

definition log_of :: "env \<Rightarrow> string \<Rightarrow> (jsobject list) world \<Rightarrow> jsobject list" where
  "log_of e filename w = records_of (loaded_of e filename w)"

section \<open>Text of the program\<close>

definition emoji_bulb :: jsstring where
  "emoji_bulb = [0xD83D, 0xDCA1]"

definition bullet :: jsstring where
  "bullet = [0x2022]"

definition emoji_phone :: jsstring where
  "emoji_phone = [0xD83D, 0xDCF1]"

definition emoji_point_down :: jsstring where
  "emoji_point_down = [0xD83D, 0xDC47]"

definition emoji_rocket :: jsstring where
  "emoji_rocket = [0xD83D, 0xDE80]"

definition emoji_muscle :: jsstring where
  "emoji_muscle = [0xD83D, 0xDCAA]"

definition emoji_tada :: jsstring where
  "emoji_tada = [0xD83C, 0xDF89]"

definition emoji_dart :: jsstring where
  "emoji_dart = [0xD83C, 0xDFAF]"

definition emoji_palette :: jsstring where
  "emoji_palette = [0xD83C, 0xDFA8]"

definition emoji_sparkles :: jsstring where
  "emoji_sparkles = [0x2728]"

definition identity_sentence :: jsstring where
  "identity_sentence =
     js ''You are helping a sales team at SendBlue.com create engaging '' @
     js ''LinkedIn content. SendBlue provides SMS/messaging APIs for businesses.''"

definition custom_fallback :: jsstring where
  "custom_fallback =
     emoji_phone @ js '' **iPhone vs Android Users - Post Idea**\<newline>'' @
     js ''\<newline>'' @
     js ''Hook: \"The SMS behavior difference between iPhone and Android '' @
     js ''users might surprise you...\"\<newline>'' @ js ''\<newline>'' @
     js ''Key Points:\<newline>'' @ bullet @
     js '' iPhone users: 95% open rate, prefer shorter messages\<newline>'' @ bullet @
     js '' Android users: 88% open rate, engage more with rich media\<newline>'' @
     bullet @ js '' Timing matters: iPhone users respond faster (avg 3 min vs 8 '' @
     js ''min)\<newline>'' @ js ''\<newline>'' @
     js ''Hashtags: #MobileMessaging #SMS #CustomerEngagement #SendBlue\<newline>'' @
     js ''\<newline>'' @
     js ''CTA: \"What patterns have you noticed with your mobile users? '' @
     js ''Share your insights below! '' @ emoji_point_down @ js ''\"''"

definition custom_fallback_imagePrompt :: jsstring where
  "custom_fallback_imagePrompt = js ''Professional iPhone vs Android comparison infographic''"

definition daily_fallback :: jsstring where
  "daily_fallback =
     emoji_bulb @ js '' **Daily LinkedIn Prompt**\<newline>'' @ js ''\<newline>'' @
     js ''Share a quick tip about how businesses can improve their customer '' @
     js ''communication. What's one SMS/messaging mistake you see companies '' @
     js ''make, and how can they fix it?\<newline>'' @ js ''\<newline>'' @ bullet @
     js '' Include a real example (anonymized)\<newline>'' @ bullet @
     js '' Add your perspective on why it matters\<newline>'' @ bullet @
     js '' End with a question to encourage engagement''"

definition usage_hint :: jsstring where
  "usage_hint =
     js ''Please provide a specific request! For example:\<newline>'' @ bullet @
     js '' `/linkedin-machine give me post ideas about iPhone vs Android '' @
     js ''users`\<newline>'' @ bullet @
     js '' `/linkedin-machine create a post about SMS delivery rates with '' @
     js ''an infographic idea`\<newline>'' @ bullet @
     js '' `/linkedin-machine help me write about customer success stories`''"

definition loading_notice :: jsstring where
  "loading_notice =
     emoji_palette @
     js '' Generating your custom LinkedIn content and image... this may '' @
     js ''take a moment!''"

definition share_daily :: jsstring where
  "share_daily =
     js ''_Once you post, share your LinkedIn URL in this thread so the '' @
     js ''team can engage! '' @ emoji_muscle @ js ''_''"

definition share_custom :: jsstring where
  "share_custom =
     js ''_Once you create this post, share the LinkedIn URL here so the '' @
     js ''team can engage! '' @ emoji_muscle @ js ''_''"

definition image_failed_note :: jsstring where
  "image_failed_note =
     emoji_bulb @
     js '' *Image generation failed, but you can manually create a graphic '' @
     js ''using the description above*''"

section \<open>Context builder and content generator\<close>

subsection \<open>Custom generation\<close>

text \<open>
  The body of \<open>recentPosts.forEach\<close> in \<open>generateCustomContent\<close>: a record whose
  \<open>messageText\<close> is truthy (a string that is not empty) adds one line, cut to 100 code
  units; any other record adds nothing.
\<close>

definition custom_context_step :: "jsstring \<Rightarrow> jsobject \<Rightarrow> jsstring" where
  "custom_context_step context post =
     (case get_prop post ''messageText'' of
        Some (JString s) \<Rightarrow>
          if s \<noteq> [] then context @ js ''- '' @ substring0 100 s @ js ''\<newline>'' else context
      | _ \<Rightarrow> context)"

definition custom_context :: "jsobject list \<Rightarrow> jsstring" where
  "custom_context previousPosts =
     (let context = identity_sentence in
      if length previousPosts > 0 then
        (let recentPosts = slice_last 5 previousPosts;
             context = context @ js ''\<newline>'' @ js ''\<newline>'' @ js ''Recent team posts:\<newline>''
         in foldl custom_context_step context recentPosts)
      else context)"

definition custom_request :: "jsstring \<Rightarrow> jsstring \<Rightarrow> completion_request" where
  "custom_request context request =
     Completion (js ''gpt-3.5-turbo'') context
       (js ''Create a LinkedIn post concept: \"'' @ request @ js ''\"\<newline>'' @ js ''\<newline>'' @
        js ''Provide:\<newline>'' @ js ''1. Hook/angle\<newline>'' @
        js ''2. Key points\<newline>'' @ js ''3. Hashtags\<newline>'' @
        js ''4. Call-to-action\<newline>'' @ js ''\<newline>'' @
        js ''Also suggest a detailed image description for a professional '' @
        js ''graphic that would accompany this post.'')
       300 7"

text \<open>The four instruction strings of the image-prompt heuristic.\<close>

definition comparison_infographic_instruction :: jsstring where
  "comparison_infographic_instruction =
     js ''Professional infographic comparing iPhone vs Android messaging '' @
     js ''statistics, split-screen design with phone silhouettes, clean '' @
     js ''charts showing engagement rates, modern blue and white color '' @
     js ''scheme, business style''"

definition data_visualization_instruction :: jsstring where
  "data_visualization_instruction =
     js ''Professional business chart or infographic about SMS messaging '' @
     js ''and customer communication, clean design, corporate colors, '' @
     js ''data visualization''"

definition comparison_layout_instruction :: jsstring where
  "comparison_layout_instruction =
     js ''Professional comparison infographic for business messaging, '' @
     js ''side-by-side layout, clean corporate design, blue and white '' @ js ''theme''"

definition generic_instruction :: "jsstring \<Rightarrow> jsstring" where
  "generic_instruction request =
     js ''Professional LinkedIn post graphic about '' @ request @ js '', business '' @
     js ''style infographic, clean design, corporate blue and white colors, '' @
     js ''modern layout''"

text \<open>The image-prompt heuristic (the \<open>if\<close>/\<open>else if\<close> chain on the request).\<close>

definition image_prompt_for :: "jsstring \<Rightarrow> jsstring" where
  "image_prompt_for request =
     (if String_includes (toLowerCase request) (js ''iphone'')
         \<and> String_includes (toLowerCase request) (js ''android'') then
        comparison_infographic_instruction
      else if String_includes (toLowerCase request) (js ''chart'')
         \<or> String_includes (toLowerCase request) (js ''graph'')
         \<or> String_includes (toLowerCase request) (js ''data'') then
        data_visualization_instruction
      else if String_includes (toLowerCase request) (js ''comparison'') then
        comparison_layout_instruction
      else generic_instruction request)"

text \<open>
  A request mentions a keyword when some piece of it is the keyword up to the case of its
  letters.
\<close>

definition mentions :: "jsstring \<Rightarrow> jsstring \<Rightarrow> bool" where
  "mentions request keyword \<longleftrightarrow> (\<exists>a m b. request = a @ m @ b \<and> toLowerCase m = keyword)"

record custom_result =
  textContent :: jsstring
  imageUrl :: "jsstring option"
  imagePrompt :: jsstring

text \<open>The request sent to the image service, and the result returned from the \<open>catch\<close>.\<close>

definition custom_image_request :: "jsstring \<Rightarrow> image_request" where
  "custom_image_request request =
     ImageRequest (js ''dall-e-3'') (image_prompt_for request) (js ''1024x1024'') (js ''standard'') 1"

definition fallback_result :: custom_result where
  "fallback_result =
     \<lparr>textContent = custom_fallback, imageUrl = None,
      imagePrompt = custom_fallback_imagePrompt\<rparr>"

definition generateCustomContent :: "env \<Rightarrow> jsstring \<Rightarrow> custom_result io" where
  "generateCustomContent e request =
     catchE
       (bindE (loadData e POSTS_FILE) (\<lambda>previousPosts.
        bindE (chat_completions_create e (custom_request (custom_context (records_of previousPosts)) request))
          (\<lambda>textContent.
        bindE
          (catchE
             (bindE (images_generate e (custom_image_request request))
                (\<lambda>url. returnE (Some url)))
             (\<lambda>imageError.
                bindE (console_error ''Image generation failed:'' imageError) (\<lambda>_. returnE None)))
          (\<lambda>imageUrl.
        returnE \<lparr>textContent = textContent, imageUrl = imageUrl,
                 imagePrompt = image_prompt_for request\<rparr>))))
       (\<lambda>error.
          bindE (console_error ''OpenAI Error:'' error) (\<lambda>_. returnE fallback_result))"

subsection \<open>Scheduled generation\<close>

definition daily_posts_step :: "jsstring \<Rightarrow> jsobject \<Rightarrow> jsstring" where
  "daily_posts_step context post =
     context @ js ''- '' @ template (get_prop post ''content'') @ js ''\<newline>''"

definition daily_prompts_step :: "jsstring \<Rightarrow> jsobject \<Rightarrow> jsstring" where
  "daily_prompts_step context prompt =
     context @ js ''- '' @ template (get_prop prompt ''content'') @ js ''\<newline>''"

definition daily_context :: "jsobject list \<Rightarrow> jsobject list \<Rightarrow> jsstring" where
  "daily_context previousPosts previousPrompts =
     (let context = identity_sentence;
          context =
            (if length previousPosts > 0 then
               foldl daily_posts_step
                 (context @ js ''\<newline>'' @ js ''\<newline>'' @
                  js ''Here are some recent successful posts from the team:\<newline>'')
                 (slice_last 10 previousPosts)
             else context)
      in if length previousPrompts > 0 then
           foldl daily_prompts_step
             (context @ js ''\<newline>'' @ js ''\<newline>'' @
              js ''Avoid repeating these recent prompts:\<newline>'')
             (slice_last 5 previousPrompts)
         else context)"

definition daily_request :: "jsstring \<Rightarrow> completion_request" where
  "daily_request context =
     Completion (js ''gpt-4'') context
       (js ''Generate a specific, actionable LinkedIn post idea that would '' @
        js ''be valuable for a sales team member to share. Include the angle/hook '' @
        js ''and 2-3 bullet points on what to include. Make it relevant to '' @
        js ''messaging/SMS/API space or general sales insights.'')
       200 8"

definition generateContentPrompt :: "env \<Rightarrow> jsstring io" where
  "generateContentPrompt e =
     catchE
       (bindE (loadData e POSTS_FILE) (\<lambda>previousPosts.
        bindE (loadData e PROMPTS_FILE) (\<lambda>previousPrompts.
        chat_completions_create e (daily_request
          (daily_context (records_of previousPosts) (records_of previousPrompts))))))
       (\<lambda>error.
          bindE (console_error ''Error generating prompt:'' error) (\<lambda>_.
          returnE daily_fallback))"

subsection \<open>The lines of a context\<close>

text \<open>
  What one record adds to a context: \<open>custom_line\<close> in custom generation, \<open>content_line\<close>
  in scheduled generation (for a post and for a prompt alike).
\<close>

definition custom_line :: "jsobject \<Rightarrow> jsstring" where
  "custom_line post =
     (case get_prop post ''messageText'' of
        Some (JString s) \<Rightarrow> if s \<noteq> [] then js ''- '' @ substring0 100 s @ js ''\<newline>'' else []
      | _ \<Rightarrow> [])"

definition content_line :: "jsobject \<Rightarrow> jsstring" where
  "content_line r = js ''- '' @ template (get_prop r ''content'') @ js ''\<newline>''"

section \<open>Posting the daily prompt\<close>

definition daily_post :: "jsstring \<Rightarrow> jsstring \<Rightarrow> post" where
  "daily_post channelId prompt =
     Post channelId
       (emoji_rocket @ js '' **Daily LinkedIn Content Idea**\<newline>'' @ js ''\<newline>'' @
        prompt @ js ''\<newline>'' @ js ''\<newline>'' @ share_daily)
       [Section (emoji_rocket @ js '' *Daily LinkedIn Content Idea*\<newline>'' @ js ''\<newline>'' @ prompt),
        Context share_daily]"

definition daily_record :: "jsstring \<Rightarrow> jsstring \<Rightarrow> jsstring \<Rightarrow> jsstring \<Rightarrow> jsobject" where
  "daily_record result_ts prompt now channelId =
     [(''id'', JString result_ts), (''content'', JString prompt),
      (''timestamp'', JString now), (''channel'', JString channelId)]"

text \<open>The function returns the platform's result, or \<open>undefined\<close> (\<open>None\<close>) from its \<open>catch\<close>.\<close>

definition postDailyPrompt :: "env \<Rightarrow> jsstring \<Rightarrow> (jsstring option) io" where
  "postDailyPrompt e channelId =
     catchE
       (bindE (generateContentPrompt e) (\<lambda>prompt.
        bindE (chat_postMessage e (daily_post channelId prompt)) (\<lambda>result_ts.
        bindE (loadData e PROMPTS_FILE) (\<lambda>prompts.
        bindE (new_Date_toISOString e) (\<lambda>now.
        bindE (saveData e PROMPTS_FILE
                 (records_of prompts @ [daily_record result_ts prompt now channelId]))
          (\<lambda>_.
        returnE (Some result_ts)))))))
       (\<lambda>error.
          bindE (console_error ''Error posting daily prompt:'' error) (\<lambda>_. returnE None))"

section \<open>Engagement listener\<close>

text \<open>
  The record pushed for one matched link. A property whose value is \<open>undefined\<close> is left
  out of the JSON text, so \<open>userId\<close> is present exactly when the event names a user and
  \<open>messageText\<close> exactly when it has a text.
\<close>

definition shared_post :: "jsstring \<Rightarrow> message \<Rightarrow> jsstring \<Rightarrow> jsobject" where
  "shared_post url message now =
     [(''url'', JString url)]
     @ (case msg_user message of None \<Rightarrow> [] | Some u \<Rightarrow> [(''userId'', JString u)])
     @ [(''timestamp'', JString now), (''channel'', JString (msg_channel message))]
     @ (case msg_text message of None \<Rightarrow> [] | Some t \<Rightarrow> [(''messageText'', JString t)])"

text \<open>\<open>urls.forEach(url => posts.push({ ... }))\<close>: each push reads the clock.\<close>

fun push_shared_posts :: "env \<Rightarrow> message \<Rightarrow> jsstring list \<Rightarrow> jsobject list \<Rightarrow> (jsobject list) io" where
  "push_shared_posts e message [] posts = returnE posts"
| "push_shared_posts e message (url # urls) posts =
     bindE (new_Date_toISOString e) (\<lambda>now.
       push_shared_posts e message urls (posts @ [shared_post url message now]))"

text \<open>\<open>urls[0]\<close> inside the template literal.\<close>

definition first_url :: "jsstring list \<Rightarrow> jsstring" where
  "first_url urls = (case urls of [] \<Rightarrow> js ''undefined'' | url # _ \<Rightarrow> url)"

definition encouragement :: "jsstring list \<Rightarrow> message \<Rightarrow> reply" where
  "encouragement urls message =
     Reply (js ''Great post! '' @ emoji_tada @
            js '' Team, show some love on this LinkedIn post: '' @ first_url urls)
       (msg_ts message)"

text \<open>\<open>message.text?.match(linkedinUrlRegex)\<close>\<close>

definition linkedin_urls :: "message \<Rightarrow> jsstring list option" where
  "linkedin_urls message = (case msg_text message of None \<Rightarrow> None | Some t \<Rightarrow> String_match t)"

definition message_handler :: "env \<Rightarrow> message \<Rightarrow> unit io" where
  "message_handler e message =
     (case linkedin_urls message of
        None \<Rightarrow> returnE ()
      | Some urls \<Rightarrow>
          catchE
            (bindE (reactions_add e (Reaction (msg_channel message) (msg_ts message) (js ''link'')))
               (\<lambda>_.
             bindE (loadData e POSTS_FILE) (\<lambda>posts.
             bindE (push_shared_posts e message urls (records_of posts)) (\<lambda>posts.
             bindE (saveData e POSTS_FILE posts) (\<lambda>_.
             say e (encouragement urls message))))))
            (\<lambda>error. console_error ''Error handling LinkedIn URL:'' error))"

section \<open>Command handlers\<close>

definition linkedin_prompt_handler :: "env \<Rightarrow> command \<Rightarrow> unit io" where
  "linkedin_prompt_handler e command =
     bindE (ack e) (\<lambda>_.
     catchE
       (bindE (postDailyPrompt e (cmd_channel_id command)) (\<lambda>_.
        respond e (js ''Daily LinkedIn prompt posted! '' @ emoji_rocket)))
       (\<lambda>error. respond e (js ''Error posting prompt. Please try again.'')))"

text \<open>\<open>if (result.imageUrl)\<close>: a URL that is neither \<open>null\<close> nor the empty string.\<close>

definition custom_blocks :: "custom_result \<Rightarrow> block list" where
  "custom_blocks result =
     [Section (emoji_dart @ js '' *Custom LinkedIn Content*\<newline>'' @ js ''\<newline>'' @
               textContent result)]
     @ (case imageUrl result of
          Some (c # cs) \<Rightarrow>
            [Image (c # cs) (js ''Generated LinkedIn post graphic''),
             Context (emoji_sparkles @ js '' *Generated image prompt:* '' @ imagePrompt result)]
        | _ \<Rightarrow> [Context image_failed_note])
     @ [Context share_custom]"

definition custom_post :: "jsstring \<Rightarrow> custom_result \<Rightarrow> post" where
  "custom_post channelId result =
     Post channelId
       (emoji_dart @ js '' **Custom LinkedIn Content**\<newline>'' @ js ''\<newline>'' @ textContent result)
       (custom_blocks result)"

definition custom_record :: "jsstring \<Rightarrow> custom_result \<Rightarrow> jsstring \<Rightarrow> jsstring \<Rightarrow> jsstring \<Rightarrow> jsobject" where
  "custom_record rec_id result request now channelId =
     [(''id'', JString rec_id), (''content'', JString (textContent result)),
      (''request'', JString request), (''type'', JString (js ''custom'')),
      (''imageUrl'', (case imageUrl result of None \<Rightarrow> JNull | Some url \<Rightarrow> JString url)),
      (''imagePrompt'', JString (imagePrompt result)),
      (''timestamp'', JString now), (''channel'', JString channelId)]"

definition linkedin_machine_handler :: "env \<Rightarrow> command \<Rightarrow> unit io" where
  "linkedin_machine_handler e command =
     bindE (ack e) (\<lambda>_.
     catchE
       (let request = trim (cmd_text command) in
        if request = [] then respond e usage_hint
        else
          bindE (respond e loading_notice) (\<lambda>_.
          bindE (generateCustomContent e request) (\<lambda>result.
          bindE (chat_postMessage e (custom_post (cmd_channel_id command) result)) (\<lambda>_.
          bindE (loadData e PROMPTS_FILE) (\<lambda>prompts.
          bindE (Date_now_toString e) (\<lambda>rec_id.
          bindE (new_Date_toISOString e) (\<lambda>now.
          saveData e PROMPTS_FILE
            (records_of prompts
             @ [custom_record rec_id result request now (cmd_channel_id command)]))))))))
       (\<lambda>error.
          bindE (console_error ''Error generating custom content:'' error) (\<lambda>_.
          respond e (js ''Sorry, I had trouble generating that content. Please try again!''))))"

section \<open>Sample surroundings\<close>

text \<open>A world in which every outside call succeeds, and an empty state to start from.\<close>

definition env_ok :: env where
  "env_ok =
     \<lparr>unreadable = (\<lambda>_. False), unwritable = (\<lambda>_. False),
      reactions_add_error = (\<lambda>_. None), say_error = (\<lambda>_. None),
      postMessage_result = (\<lambda>_. Inr (js ''1700000000.000100'')), ack_error = None,
      respond_error = (\<lambda>_. None),
      chat_completion = (\<lambda>_. Inr (js ''Generated idea'')),
      image_generation = (\<lambda>_. Inr (js ''https://img.example/1.png'')),
      toISOString_at =
        (\<lambda>n. if n = 0 then js ''2024-01-01T00:00:00.000Z'' else js ''2024-01-01T00:00:00.001Z''),
      now_at = (\<lambda>_. js ''1704067200000'')\<rparr>"

definition world_empty :: "'v world" where
  "world_empty =
     \<lparr>files = (\<lambda>_. None), console = [], reactions = [], replies = [], posted = [], acks = 0,
      responses = [], chat_calls = [], image_calls = [], clock_reads = 0\<rparr>"

text \<open>
  A message with one link, a message with two links, and a message whose two links end
  at white space outside ASCII: a no-break space and an ideographic space.
\<close>

definition sample_message :: message where
  "sample_message =
     \<lparr>msg_text = Some (js ''check this out https://linkedin.com/posts/abc123-xyz''),
      msg_user = Some (js ''U1''), msg_channel = js ''C1'', msg_ts = js ''1700000000.000001''\<rparr>"



text \<open>
  A disk that rejects every write, a posts file that does not parse, and a posts file
  whose text is \<open>null\<close>: JSON text, but not of a sequence of records.
\<close>

definition env_readonly :: env where
  "env_readonly = env_ok\<lparr>unwritable := (\<lambda>_. True)\<rparr>"

definition world_corrupt :: "'v world" where
  "world_corrupt = world_empty\<lparr>files := [POSTS_FILE \<mapsto> Malformed ''{oops'']\<rparr>"

definition world_null :: "jsval world" where
  "world_null = world_empty\<lparr>files := [POSTS_FILE \<mapsto> Json JNull]\<rparr>"

text \<open>A platform that rejects reactions, and one that rejects threaded replies.\<close>

definition env_no_reaction :: env where
  "env_no_reaction = env_ok\<lparr>reactions_add_error := (\<lambda>_. Some (Error ''ratelimited''))\<rparr>"

definition env_no_reply :: env where
  "env_no_reply = env_ok\<lparr>say_error := (\<lambda>_. Some (Error ''channel_not_found''))\<rparr>"


definition env_no_image :: env where
  "env_no_image = env_ok\<lparr>image_generation := (\<lambda>_. Inl (Error ''content_policy_violation''))\<rparr>"

definition blank_command :: command where
  "blank_command =
     \<lparr>cmd_text = js '' '' @ [0x00A0, 0x3000, 0xFEFF] @ js ''\<newline>'', cmd_channel_id = js ''C1''\<rparr>"


section \<open>Strings: what the functions compute\<close>

text \<open>\<open>String_includes\<close> is containment of the pattern as a contiguous piece.\<close>

lemma strip_prefix_iff: "strip_prefix p s = Some r \<longleftrightarrow> s = p @ r"
  by (induction p s rule: strip_prefix.induct) auto

lemma String_includes_iff: "String_includes s p \<longleftrightarrow> (\<exists>a b. s = a @ p @ b)"
proof (induction s)
  case Nil
  show ?case by simp
next
  case (Cons c cs)
  have "(\<exists>a b. c # cs = a @ p @ b) \<longleftrightarrow> (\<exists>b. c # cs = p @ b) \<or> (\<exists>a b. cs = a @ p @ b)"
  proof
    assume "\<exists>a b. c # cs = a @ p @ b"
    then obtain a b where ab: "c # cs = a @ p @ b" by blast
    show "(\<exists>b. c # cs = p @ b) \<or> (\<exists>a b. cs = a @ p @ b)"
    proof (cases a)
      case Nil
      with ab show ?thesis by auto
    next
      case (Cons x a')
      with ab have "cs = a' @ p @ b" by simp
      then show ?thesis by blast
    qed
  next
    assume "(\<exists>b. c # cs = p @ b) \<or> (\<exists>a b. cs = a @ p @ b)"
    then show "\<exists>a b. c # cs = a @ p @ b"
    proof
      assume "\<exists>b. c # cs = p @ b"
      then obtain b where "c # cs = [] @ p @ b" by auto
      then show ?thesis by blast
    next
      assume "\<exists>a b. cs = a @ p @ b"
      then obtain a b where "c # cs = (c # a) @ p @ b" by auto
      then show ?thesis by blast
    qed
  qed
  moreover have "strip_prefix p (c # cs) \<noteq> None \<longleftrightarrow> (\<exists>b. c # cs = p @ b)"
    using strip_prefix_iff [of p "c # cs"] by auto
  ultimately show ?case using Cons.IH by simp
qed

text \<open>
  White space reaches beyond ASCII: the no-break space, the ideographic space and the
  byte order mark are white space, the zero width space is not.
\<close>

lemma is_space_beyond_ASCII:
  "is_space 0x00A0 \<and> is_space 0x2003 \<and> is_space 0x3000 \<and> is_space 0xFEFF \<and> \<not> is_space 0x200B"
  by (simp add: is_space_def)

text \<open>A request trims to the empty string exactly when it consists of white space only.\<close>

lemma trim_empty_iff: "trim s = [] \<longleftrightarrow> (\<forall>c \<in> set s. is_space c)"
proof -
  have "trim s = [] \<longleftrightarrow> dropWhile is_space (rev (dropWhile is_space s)) = []"
    by (simp add: trim_def)
  also have "\<dots> \<longleftrightarrow> (\<forall>c \<in> set (dropWhile is_space s). is_space c)"
    by (simp only: dropWhile_eq_Nil_conv set_rev)
  also have "\<dots> \<longleftrightarrow> dropWhile is_space s = []"
  proof
    assume all: "\<forall>c \<in> set (dropWhile is_space s). is_space c"
    show "dropWhile is_space s = []"
    proof (rule ccontr)
      assume ne: "dropWhile is_space s \<noteq> []"
      then have "\<not> is_space (hd (dropWhile is_space s))" by (rule hd_dropWhile)
      moreover from ne have "hd (dropWhile is_space s) \<in> set (dropWhile is_space s)" by simp
      ultimately show False using all by blast
    qed
  next
    assume "dropWhile is_space s = []"
    then show "\<forall>c \<in> set (dropWhile is_space s). is_space c"
      by (auto dest: set_dropWhileD)
  qed
  also have "\<dots> \<longleftrightarrow> (\<forall>c \<in> set s. is_space c)"
    by (simp only: dropWhile_eq_Nil_conv)
  finally show ?thesis .
qed

text \<open>
  Every match that the scan returns is a link in the sense of the pattern and occurs in the
  text; a match ends at white space or at the end of the text.
\<close>

lemma match_path_shape:
  assumes "match_path s = Some (m, rest)"
  shows "\<exists>tok. tok \<noteq> [] \<and> (\<forall>c \<in> set tok. \<not> is_space c) \<and> m = js ''linkedin.com/posts/'' @ tok
           \<and> s = m @ rest \<and> (rest = [] \<or> is_space (hd rest))"
proof -
  from assms obtain r where r: "strip_prefix (js ''linkedin.com/posts/'') s = Some r"
    and tok: "takeWhile (\<lambda>c. \<not> is_space c) r \<noteq> []"
    and m: "m = js ''linkedin.com/posts/'' @ takeWhile (\<lambda>c. \<not> is_space c) r"
    and rest: "rest = dropWhile (\<lambda>c. \<not> is_space c) r"
    by (auto simp: match_path_def Let_def split: option.splits if_splits)
  from r have s: "s = js ''linkedin.com/posts/'' @ r" by (simp only: strip_prefix_iff)
  have "\<forall>c \<in> set (takeWhile (\<lambda>c. \<not> is_space c) r). \<not> is_space c"
    by (auto dest: set_takeWhileD)
  moreover have "s = m @ rest"
    unfolding s m rest by simp
  moreover have "rest = [] \<or> is_space (hd rest)"
    unfolding rest using hd_dropWhile [of "\<lambda>c. \<not> is_space c" r] by auto
  ultimately show ?thesis using tok m by blast
qed

lemma match_at_shape:
  assumes "match_at s = Some (m, rest)"
  shows "is_link m \<and> s = m @ rest \<and> (rest = [] \<or> is_space (hd rest))"
proof -
  from assms obtain r1 where r1: "strip_prefix (js ''https://'') s = Some r1"
    and alt: "(\<exists>r2 t. strip_prefix (js ''www.'') r1 = Some r2 \<and> match_path r2 = Some (t, rest)
                 \<and> m = js ''https://'' @ js ''www.'' @ t)
              \<or> (\<exists>t. match_path r1 = Some (t, rest) \<and> m = js ''https://'' @ t)"
    by (fastforce simp: match_at_def split: option.splits)
  from r1 have s: "s = js ''https://'' @ r1" by (simp only: strip_prefix_iff)
  from alt show ?thesis
  proof
    assume "\<exists>r2 t. strip_prefix (js ''www.'') r1 = Some r2 \<and> match_path r2 = Some (t, rest)
                 \<and> m = js ''https://'' @ js ''www.'' @ t"
    then obtain r2 t where r2: "strip_prefix (js ''www.'') r1 = Some r2"
      and t: "match_path r2 = Some (t, rest)" and m: "m = js ''https://'' @ js ''www.'' @ t"
      by blast
    from r2 have r1': "r1 = js ''www.'' @ r2" by (simp only: strip_prefix_iff)
    from match_path_shape [OF t] obtain tok where tok: "tok \<noteq> []" "\<forall>c \<in> set tok. \<not> is_space c"
      "t = js ''linkedin.com/posts/'' @ tok" "r2 = t @ rest" "rest = [] \<or> is_space (hd rest)"
      by blast
    have "is_link m"
      unfolding is_link_def m using tok(1-3) by blast
    moreover have "s = m @ rest" unfolding s r1' m using tok(4) by simp
    ultimately show ?thesis using tok(5) by blast
  next
    assume "\<exists>t. match_path r1 = Some (t, rest) \<and> m = js ''https://'' @ t"
    then obtain t where t: "match_path r1 = Some (t, rest)" and m: "m = js ''https://'' @ t"
      by blast
    from match_path_shape [OF t] obtain tok where tok: "tok \<noteq> []" "\<forall>c \<in> set tok. \<not> is_space c"
      "t = js ''linkedin.com/posts/'' @ tok" "r1 = t @ rest" "rest = [] \<or> is_space (hd rest)"
      by blast
    have "is_link m"
      unfolding is_link_def m using tok(1-3) by (metis append_Nil)
    moreover have "s = m @ rest" unfolding s m using tok(4) by simp
    ultimately show ?thesis using tok(5) by blast
  qed
qed

lemma match_all_links: "m \<in> set (match_all s) \<Longrightarrow> is_link m \<and> String_includes s m"
proof (induction s rule: match_all.induct)
  case 1
  then show ?case by simp
next
  case (2 c cs)
  show ?case
  proof (cases "match_at (c # cs)")
    case None
    with 2 have "is_link m \<and> String_includes cs m" by simp
    then show ?thesis by simp
  next
    case (Some x)
    obtain m0 rest where x: "x = (m0, rest)" by (cases x)
    from match_at_shape Some x have sh: "is_link m0" "c # cs = m0 @ rest" by blast+
    from "2.prems" Some x have "m = m0 \<or> m \<in> set (match_all rest)" by simp
    then show ?thesis
    proof
      assume "m = m0"
      with sh have "is_link m" "c # cs = [] @ m @ rest" by simp_all
      then show ?thesis unfolding String_includes_iff by blast
    next
      assume "m \<in> set (match_all rest)"
      with "2.IH"(2) [OF Some x [symmetric]] have l: "is_link m" and "String_includes rest m"
        by simp_all
      then obtain a b where "rest = a @ m @ b" unfolding String_includes_iff by blast
      with sh(2) have "c # cs = (m0 @ a) @ m @ b" by simp
      with l show ?thesis unfolding String_includes_iff by blast
    qed
  qed
qed

section \<open>The store, step by step\<close>

lemmas io_defs = returnE_def bindE_def catchE_def fs_readFile_def fs_writeFile_def
  console_error_def new_Date_toISOString_def Date_now_toString_def reactions_add_def say_def
  chat_postMessage_def ack_def respond_def chat_completions_create_def images_generate_def

lemma loadData_unfold:
  "loadData e f w =
     (case files w f of
        None \<Rightarrow> (Inr Empty_array, w)
      | Some t \<Rightarrow>
          if unreadable e f then (Inr Empty_array, w)
          else (case t of Malformed s \<Rightarrow> (Inr Empty_array, w) | Json d \<Rightarrow> (Inr (Parsed d), w)))"
  by (simp add: loadData_def io_defs JSON_parse_def split: option.splits file_text.splits)

lemma saveData_unfold:
  "saveData e f d w =
     (if unwritable e f
      then (Inr (), w\<lparr>console := console w @ [(''Error saving data:'', Error ''EACCES'')]\<rparr>)
      else (Inr (), w\<lparr>files := (files w)(f \<mapsto> Json d)\<rparr>))"
  by (simp add: saveData_def io_defs JSON_stringify_def)

lemma loaded_of_unfold:
  "loaded_of e f w =
     (case files w f of
        None \<Rightarrow> Empty_array
      | Some t \<Rightarrow>
          if unreadable e f then Empty_array
          else (case t of Malformed s \<Rightarrow> Empty_array | Json d \<Rightarrow> Parsed d))"
  by (simp add: loaded_of_def loadData_unfold split: option.splits file_text.splits)

lemma log_of_unfold:
  "log_of e f w =
     (case files w f of
        None \<Rightarrow> []
      | Some t \<Rightarrow> if unreadable e f then [] else (case t of Malformed s \<Rightarrow> [] | Json d \<Rightarrow> d))"
  by (simp add: log_of_def loaded_of_unfold split: option.splits file_text.splits)

lemma loadData_loaded_of: "loadData e f w = (Inr (loaded_of e f w), w)"
  by (simp add: loaded_of_def loadData_unfold split: option.splits file_text.splits)

lemma records_of_loaded_of: "records_of (loaded_of e f w) = log_of e f w"
  by (simp add: log_of_def)

lemmas loadData_log_of = loadData_loaded_of records_of_loaded_of

lemma log_of_updates [simp]:
  "log_of e f (w\<lparr>console := c\<rparr>) = log_of e f w"
  "log_of e f (w\<lparr>reactions := r\<rparr>) = log_of e f w"
  "log_of e f (w\<lparr>replies := rp\<rparr>) = log_of e f w"
  "log_of e f (w\<lparr>posted := p\<rparr>) = log_of e f w"
  "log_of e f (w\<lparr>acks := a\<rparr>) = log_of e f w"
  "log_of e f (w\<lparr>responses := rs\<rparr>) = log_of e f w"
  "log_of e f (w\<lparr>chat_calls := cc\<rparr>) = log_of e f w"
  "log_of e f (w\<lparr>image_calls := ic\<rparr>) = log_of e f w"
  "log_of e f (w\<lparr>clock_reads := n\<rparr>) = log_of e f w"
  by (simp_all add: log_of_unfold)

section \<open>Persistent log store: round trip and silent degradation\<close>

text \<open>
  Claim C6. Round trip of the store: for every sequence of records, saving it with
  \<open>saveData\<close> and then loading the same file with \<open>loadData\<close> returns that sequence, the
  same records in the same order, as the value parsed from the file. Saving and loading
  here mean that the write and the read take place: the file can be written and read.
\<close>

theorem store_round_trip:
  "\<not> unwritable e f \<Longrightarrow> \<not> unreadable e f \<Longrightarrow>
     fst (loadData e f (snd (saveData e f d w))) = Inr (Parsed d)"
  by (simp add: loadData_unfold saveData_unfold)

theorem store_round_trip_witness:
  "\<not> unwritable env_ok POSTS_FILE \<and> \<not> unreadable env_ok POSTS_FILE \<and>
   fst (loadData env_ok POSTS_FILE
          (snd (saveData env_ok POSTS_FILE
                  [[(''url'', JString (js ''a''))], [(''url'', JString (js ''b''))]] world_empty)))
     = Inr (Parsed [[(''url'', JString (js ''a''))], [(''url'', JString (js ''b''))]])"
  using store_round_trip
    [of env_ok POSTS_FILE "[[(''url'', JString (js ''a''))], [(''url'', JString (js ''b''))]]"
      world_empty]
  by (simp add: env_ok_def)

text \<open>
  Claim C7, as amended. The store never raises: \<open>loadData\<close> always returns
  normally and changes nothing. It returns the empty sequence when the file is absent,
  unreadable, or holds text that does not parse as JSON; when the file can be read and
  parses, it returns the parsed value as it is, whatever that value is. \<open>saveData\<close> always
  returns normally, and when the write fails it adds one line to the console and does
  nothing else.
\<close>

theorem store_silent_degrade:
  "(\<exists>l. fst (loadData e f w) = Inr l) \<and>
   snd (loadData e f w) = w \<and>
   ((files w f = None \<or> unreadable e f \<or> (\<exists>s. files w f = Some (Malformed s)))
      \<longrightarrow> fst (loadData e f w) = Inr Empty_array) \<and>
   (files w f = Some (Json v) \<and> \<not> unreadable e f
      \<longrightarrow> fst (loadData e f w) = Inr (Parsed v)) \<and>
   fst (saveData e f d w) = Inr () \<and>
   (unwritable e f \<longrightarrow>
      snd (saveData e f d w)
        = w\<lparr>console := console w @ [(''Error saving data:'', Error ''EACCES'')]\<rparr>) \<and>
   (\<not> unwritable e f \<longrightarrow>
      snd (saveData e f d w) = w\<lparr>files := (files w)(f \<mapsto> Json d)\<rparr>)"
  by (auto simp: loadData_unfold saveData_unfold split: option.splits file_text.splits)

theorem store_silent_degrade_witness:
  "(files world_corrupt POSTS_FILE = None \<or> unreadable env_readonly POSTS_FILE
      \<or> (\<exists>s. files world_corrupt POSTS_FILE = Some (Malformed s))) \<and>
   fst (loadData env_readonly POSTS_FILE (world_corrupt :: (jsobject list) world))
     = Inr Empty_array \<and>
   files world_null POSTS_FILE = Some (Json JNull) \<and> \<not> unreadable env_ok POSTS_FILE \<and>
   fst (loadData env_ok POSTS_FILE world_null) = Inr (Parsed JNull) \<and>
   unwritable env_readonly POSTS_FILE \<and>
   snd (saveData env_readonly POSTS_FILE ([] :: jsobject list) world_corrupt)
     = world_corrupt\<lparr>console := [(''Error saving data:'', Error ''EACCES'')]\<rparr> \<and>
   \<not> unwritable env_ok PROMPTS_FILE \<and>
   snd (saveData env_ok PROMPTS_FILE JNull world_null)
     = world_null\<lparr>files := [POSTS_FILE \<mapsto> Json JNull, PROMPTS_FILE \<mapsto> Json JNull]\<rparr>"
proof -
  have corrupt: "files world_corrupt POSTS_FILE = Some (Malformed ''{oops'')"
    "console world_corrupt = []"
    by (simp_all add: world_corrupt_def world_empty_def)
  have null: "files world_null = [POSTS_FILE \<mapsto> Json JNull]"
    by (simp add: world_null_def world_empty_def)
  have env: "unwritable env_readonly POSTS_FILE" "\<not> unreadable env_ok POSTS_FILE"
    "\<not> unwritable env_ok PROMPTS_FILE"
    by (simp_all add: env_readonly_def env_ok_def)
  from store_silent_degrade
    [of env_readonly POSTS_FILE "world_corrupt :: (jsobject list) world" "[]" "[]"]
    store_silent_degrade [of env_ok POSTS_FILE world_null JNull JNull]
    store_silent_degrade [of env_ok PROMPTS_FILE world_null JNull JNull]
  show ?thesis by (simp add: corrupt null env)
qed

text \<open>
  The claim as it stands says that \<open>loadData\<close> returns the empty sequence for every
  malformed store. A store can be malformed without being unparsable: a posts file whose
  text is \<open>null\<close> is no sequence of records, it can be read and it parses, and
  \<open>loadData\<close> returns \<open>null\<close>, not the empty sequence.
\<close>

theorem store_null_file_counterexample:
  "files world_null POSTS_FILE = Some (Json JNull) \<and>
   fst (loadData env_ok POSTS_FILE world_null) = Inr (Parsed JNull) \<and>
   fst (loadData env_ok POSTS_FILE world_null) \<noteq> Inr Empty_array"
  by (simp add: loadData_unfold world_null_def world_empty_def env_ok_def)

section \<open>Engagement listener\<close>

lemma push_shared_posts_eq:
  "push_shared_posts e message urls posts w =
     (Inr (posts @ map (\<lambda>(n, url). shared_post url message (toISOString_at e n))
                     (List.enumerate (clock_reads w) urls)),
      w\<lparr>clock_reads := clock_reads w + length urls\<rparr>)"
proof (induction urls arbitrary: posts w)
  case Nil
  show ?case by (simp add: returnE_def)
next
  case (Cons url urls)
  show ?case
    by (simp add: bindE_def new_Date_toISOString_def Cons.IH)
qed

text \<open>
  The pushed records name the matched links in their order, and agree in every property
  when the clock shows the same reading at each push.
\<close>

lemma pushed_records_urls:
  "map (\<lambda>r. get_prop r ''url'')
       (map (\<lambda>(n, url). shared_post url message (toISOString_at e n)) (List.enumerate k urls))
     = map (\<lambda>url. Some (JString url)) urls"
  by (induction urls arbitrary: k) (simp_all add: shared_post_def get_prop_def)

lemma pushed_records_same_instant:
  "\<forall>i < length urls. toISOString_at e (k + i) = now \<Longrightarrow>
     map (\<lambda>(n, url). shared_post url message (toISOString_at e n)) (List.enumerate k urls)
       = map (\<lambda>url. shared_post url message now) urls"
proof (induction urls arbitrary: k)
  case Nil
  show ?case by simp
next
  case (Cons url urls)
  from Cons.prems have "toISOString_at e k = now" by force
  moreover from Cons.prems have "\<forall>i < length urls. toISOString_at e (Suc k + i) = now"
    by fastforce
  ultimately show ?case using Cons.IH [of "Suc k"] by simp
qed

text \<open>The handler on a message with links, one case per outcome of each step.\<close>

lemma message_handler_urls:
  assumes "linkedin_urls message = Some urls"
  shows "message_handler e message w =
     (case reactions_add_error e (Reaction (msg_channel message) (msg_ts message) (js ''link'')) of
        Some x \<Rightarrow> (Inr (), w\<lparr>console := console w @ [(''Error handling LinkedIn URL:'', x)]\<rparr>)
      | None \<Rightarrow>
         (let w1 = w\<lparr>reactions := reactions w
                       @ [Reaction (msg_channel message) (msg_ts message) (js ''link'')],
                     clock_reads := clock_reads w + length urls\<rparr>;
              posts = log_of e POSTS_FILE w @
                 map (\<lambda>(n, url). shared_post url message (toISOString_at e n))
                   (List.enumerate (clock_reads w) urls);
              w2 = (if unwritable e POSTS_FILE
                    then w1\<lparr>console := console w @ [(''Error saving data:'', Error ''EACCES'')]\<rparr>
                    else w1\<lparr>files := (files w)(POSTS_FILE \<mapsto> Json posts)\<rparr>)
          in case say_error e (encouragement urls message) of
               Some x \<Rightarrow>
                 (Inr (), w2\<lparr>console := console w2 @ [(''Error handling LinkedIn URL:'', x)]\<rparr>)
             | None \<Rightarrow> (Inr (), w2\<lparr>replies := replies w @ [encouragement urls message]\<rparr>)))"
  using assms
  by (simp add: message_handler_def bindE_def catchE_def reactions_add_def say_def
      console_error_def loadData_log_of push_shared_posts_eq saveData_unfold Let_def
      split: option.splits)




lemma sample_links:
  "linkedin_urls sample_message = Some [js ''https://linkedin.com/posts/abc123-xyz'']"
  by (simp add: linkedin_urls_def sample_message_def String_match_def match_at_def
      match_path_def is_space_def js_def)

text \<open>
  Claim C10. A message event without a text is a no-op for the listener: the handler
  returns normally and leaves the world as it was (no record, no reaction, no reply, nothing
  on the console).
\<close>

theorem message_without_text_is_noop:
  "msg_text message = None \<Longrightarrow> message_handler e message w = (Inr (), w)"
  by (simp add: message_handler_def linkedin_urls_def returnE_def)

theorem message_without_text_is_noop_witness:
  "msg_text (sample_message\<lparr>msg_text := None\<rparr>) = None \<and>
   message_handler env_ok (sample_message\<lparr>msg_text := None\<rparr>) world_empty
     = (Inr (), world_empty)"
  using message_without_text_is_noop [of "sample_message\<lparr>msg_text := None\<rparr>" env_ok world_empty]
  by simp




text \<open>
  Claim C9, as amended. On a message with at least one match no failure leaves the handler.
  A rejected reaction aborts the rest: the only effect is one console line, the posts file
  and the replies are as before. A rejected reply after a successful save leaves the saved
  records in the file and adds one console line. A failed save does not abort: \<open>saveData\<close>
  logs it, the file is as before, and the reply is still posted.
\<close>

theorem listener_failures:
  "linkedin_urls message = Some urls \<longrightarrow>
   fst (message_handler e message w) = Inr () \<and>
   (\<forall>x. reactions_add_error e (Reaction (msg_channel message) (msg_ts message) (js ''link'')) = Some x
      \<longrightarrow> message_handler e message w =
            (Inr (), w\<lparr>console := console w @ [(''Error handling LinkedIn URL:'', x)]\<rparr>)) \<and>
   (\<forall>x. reactions_add_error e (Reaction (msg_channel message) (msg_ts message) (js ''link'')) = None
        \<and> \<not> unwritable e POSTS_FILE
        \<and> say_error e (encouragement urls message) = Some x
      \<longrightarrow> message_handler e message w =
            (Inr (),
             w\<lparr>reactions := reactions w
                   @ [Reaction (msg_channel message) (msg_ts message) (js ''link'')],
               clock_reads := clock_reads w + length urls,
               files := (files w)(POSTS_FILE \<mapsto>
                  Json (log_of e POSTS_FILE w @
                        map (\<lambda>(n, url). shared_post url message (toISOString_at e n))
                          (List.enumerate (clock_reads w) urls))),
               console := console w @ [(''Error handling LinkedIn URL:'', x)]\<rparr>)) \<and>
   (reactions_add_error e (Reaction (msg_channel message) (msg_ts message) (js ''link'')) = None
        \<and> unwritable e POSTS_FILE
        \<and> say_error e (encouragement urls message) = None
      \<longrightarrow> message_handler e message w =
            (Inr (),
             w\<lparr>reactions := reactions w
                   @ [Reaction (msg_channel message) (msg_ts message) (js ''link'')],
               clock_reads := clock_reads w + length urls,
               console := console w @ [(''Error saving data:'', Error ''EACCES'')],
               replies := replies w @ [encouragement urls message]\<rparr>))"
  by (auto simp: message_handler_urls Let_def split: option.splits)

theorem listener_failures_witness:
  "linkedin_urls sample_message = Some [js ''https://linkedin.com/posts/abc123-xyz''] \<and>
   message_handler env_no_reaction sample_message world_empty =
     (Inr (), world_empty\<lparr>console := [(''Error handling LinkedIn URL:'', Error ''ratelimited'')]\<rparr>) \<and>
   message_handler env_no_reply sample_message world_empty =
     (Inr (),
      world_empty
        \<lparr>reactions := [Reaction (js ''C1'') (js ''1700000000.000001'') (js ''link'')],
         clock_reads := 1,
         files := [POSTS_FILE \<mapsto>
           Json [shared_post (js ''https://linkedin.com/posts/abc123-xyz'') sample_message
                   (js ''2024-01-01T00:00:00.000Z'')]],
         console := [(''Error handling LinkedIn URL:'', Error ''channel_not_found'')]\<rparr>) \<and>
   message_handler env_readonly sample_message world_empty =
     (Inr (),
      world_empty
        \<lparr>reactions := [Reaction (js ''C1'') (js ''1700000000.000001'') (js ''link'')],
         clock_reads := 1,
         console := [(''Error saving data:'', Error ''EACCES'')],
         replies := [encouragement [js ''https://linkedin.com/posts/abc123-xyz''] sample_message]\<rparr>)"
proof -
  show ?thesis
    using sample_links
      listener_failures [of sample_message "[js ''https://linkedin.com/posts/abc123-xyz'']"
        env_no_reaction world_empty]
      listener_failures [of sample_message "[js ''https://linkedin.com/posts/abc123-xyz'']"
        env_no_reply world_empty]
      listener_failures [of sample_message "[js ''https://linkedin.com/posts/abc123-xyz'']"
        env_readonly world_empty]
    by (simp add: log_of_unfold env_no_reaction_def env_no_reply_def env_readonly_def env_ok_def
        sample_message_def world_empty_def enumerate_simps encouragement_def)
qed

text \<open>
  The claim as it stands says that the failure of any step aborts the remaining steps. The
  save is a step, and when it fails the reply is posted all the same.
\<close>

theorem listener_save_failure_counterexample:
  "unwritable env_readonly POSTS_FILE \<and>
   message_handler env_readonly sample_message world_empty =
     (Inr (),
      world_empty
        \<lparr>reactions := [Reaction (js ''C1'') (js ''1700000000.000001'') (js ''link'')],
         clock_reads := 1,
         console := [(''Error saving data:'', Error ''EACCES'')],
         replies := [Reply (js ''Great post! '' @ emoji_tada @
                       js '' Team, show some love on this LinkedIn post: '' @
                       js ''https://linkedin.com/posts/abc123-xyz'')
                      (js ''1700000000.000001'')]\<rparr>)"
  by (simp add: message_handler_urls [OF sample_links])
    (simp add: env_readonly_def env_ok_def sample_message_def world_empty_def encouragement_def
      first_url_def)

section \<open>Image-prompt heuristic\<close>

text \<open>The keyword tests of the heuristic decide whether the request mentions the keyword.\<close>

lemma mentions_iff: "mentions request keyword \<longleftrightarrow> String_includes (toLowerCase request) keyword"
proof
  assume "mentions request keyword"
  then obtain a m b where "request = a @ m @ b" "toLowerCase m = keyword"
    unfolding mentions_def by blast
  then have "toLowerCase request = toLowerCase a @ keyword @ toLowerCase b"
    by (simp add: toLowerCase_def)
  then show "String_includes (toLowerCase request) keyword"
    unfolding String_includes_iff by blast
next
  assume "String_includes (toLowerCase request) keyword"
  then obtain a' b' where "map lower_unit request = a' @ keyword @ b'"
    unfolding String_includes_iff toLowerCase_def by blast
  then obtain a r where r: "request = a @ r" "keyword @ b' = map lower_unit r"
    unfolding map_eq_append_conv by blast
  from r(2) obtain m b where "r = m @ b" "keyword = map lower_unit m"
    unfolding append_eq_map_conv by blast
  with r(1) show "mentions request keyword"
    unfolding mentions_def toLowerCase_def by blast
qed

text \<open>
  Claim C3. The image-prompt heuristic is a function of the request text alone, and its
  four branches are taken first match first: (1) the request mentions both \<open>iphone\<close> and
  \<open>android\<close>, in any casing: the comparison-infographic instruction, whatever else it
  mentions; (2) otherwise it mentions \<open>chart\<close>, \<open>graph\<close> or \<open>data\<close>: the data-visualization
  instruction; (3) otherwise it mentions \<open>comparison\<close>: the comparison-layout instruction;
  (4) otherwise the generic instruction, which embeds the request as it was typed.
\<close>

theorem image_prompt_decision_table:
  "(mentions request (js ''iphone'') \<and> mentions request (js ''android'')
    \<longrightarrow> image_prompt_for request = comparison_infographic_instruction) \<and>
   (\<not> (mentions request (js ''iphone'') \<and> mentions request (js ''android''))
      \<and> (mentions request (js ''chart'') \<or> mentions request (js ''graph'') \<or> mentions request (js ''data''))
    \<longrightarrow> image_prompt_for request = data_visualization_instruction) \<and>
   (\<not> (mentions request (js ''iphone'') \<and> mentions request (js ''android''))
      \<and> \<not> (mentions request (js ''chart'') \<or> mentions request (js ''graph'') \<or> mentions request (js ''data''))
      \<and> mentions request (js ''comparison'')
    \<longrightarrow> image_prompt_for request = comparison_layout_instruction) \<and>
   (\<not> (mentions request (js ''iphone'') \<and> mentions request (js ''android''))
      \<and> \<not> (mentions request (js ''chart'') \<or> mentions request (js ''graph'') \<or> mentions request (js ''data''))
      \<and> \<not> mentions request (js ''comparison'')
    \<longrightarrow> image_prompt_for request = generic_instruction request)"
  by (simp add: image_prompt_for_def mentions_iff)

theorem image_prompt_decision_table_witness:
  "(mentions (js ''iPhone vs ANDROID: data chart comparison'') (js ''iphone'')
      \<and> mentions (js ''iPhone vs ANDROID: data chart comparison'') (js ''android'')
      \<and> mentions (js ''iPhone vs ANDROID: data chart comparison'') (js ''chart'')
      \<and> mentions (js ''iPhone vs ANDROID: data chart comparison'') (js ''comparison''))
   \<and> image_prompt_for (js ''iPhone vs ANDROID: data chart comparison'')
       = comparison_infographic_instruction
   \<and> mentions (js ''Comparison: a GRAPH of replies on Android'') (js ''graph'')
   \<and> mentions (js ''Comparison: a GRAPH of replies on Android'') (js ''comparison'')
   \<and> image_prompt_for (js ''Comparison: a GRAPH of replies on Android'')
       = data_visualization_instruction
   \<and> mentions (js ''Comparison of iPhone plans'') (js ''comparison'')
   \<and> image_prompt_for (js ''Comparison of iPhone plans'') = comparison_layout_instruction
   \<and> image_prompt_for (js ''customer success stories'')
       = generic_instruction (js ''customer success stories'')"
proof -
  have a: "mentions (js ''iPhone vs ANDROID: data chart comparison'') (js ''iphone'')
      \<and> mentions (js ''iPhone vs ANDROID: data chart comparison'') (js ''android'')
      \<and> mentions (js ''iPhone vs ANDROID: data chart comparison'') (js ''chart'')
      \<and> mentions (js ''iPhone vs ANDROID: data chart comparison'') (js ''comparison'')"
    unfolding mentions_iff by code_simp
  have b: "\<not> (mentions (js ''Comparison: a GRAPH of replies on Android'') (js ''iphone'')
        \<and> mentions (js ''Comparison: a GRAPH of replies on Android'') (js ''android''))
      \<and> (mentions (js ''Comparison: a GRAPH of replies on Android'') (js ''chart'')
         \<or> mentions (js ''Comparison: a GRAPH of replies on Android'') (js ''graph'')
         \<or> mentions (js ''Comparison: a GRAPH of replies on Android'') (js ''data''))"
    unfolding mentions_iff by code_simp
  have b': "mentions (js ''Comparison: a GRAPH of replies on Android'') (js ''graph'')
      \<and> mentions (js ''Comparison: a GRAPH of replies on Android'') (js ''comparison'')"
    unfolding mentions_iff by code_simp
  have c: "\<not> (mentions (js ''Comparison of iPhone plans'') (js ''iphone'')
        \<and> mentions (js ''Comparison of iPhone plans'') (js ''android''))
      \<and> \<not> (mentions (js ''Comparison of iPhone plans'') (js ''chart'')
         \<or> mentions (js ''Comparison of iPhone plans'') (js ''graph'')
         \<or> mentions (js ''Comparison of iPhone plans'') (js ''data''))
      \<and> mentions (js ''Comparison of iPhone plans'') (js ''comparison'')"
    unfolding mentions_iff by code_simp
  have d: "\<not> (mentions (js ''customer success stories'') (js ''iphone'')
        \<and> mentions (js ''customer success stories'') (js ''android''))
      \<and> \<not> (mentions (js ''customer success stories'') (js ''chart'')
         \<or> mentions (js ''customer success stories'') (js ''graph'')
         \<or> mentions (js ''customer success stories'') (js ''data''))
      \<and> \<not> mentions (js ''customer success stories'') (js ''comparison'')"
    unfolding mentions_iff by code_simp
  from a image_prompt_decision_table [of "js ''iPhone vs ANDROID: data chart comparison''"]
  have 1: "image_prompt_for (js ''iPhone vs ANDROID: data chart comparison'')
       = comparison_infographic_instruction" by blast
  from b image_prompt_decision_table [of "js ''Comparison: a GRAPH of replies on Android''"]
  have 2: "image_prompt_for (js ''Comparison: a GRAPH of replies on Android'')
       = data_visualization_instruction" by blast
  from c image_prompt_decision_table [of "js ''Comparison of iPhone plans''"]
  have 3: "image_prompt_for (js ''Comparison of iPhone plans'') = comparison_layout_instruction"
    by blast
  from d image_prompt_decision_table [of "js ''customer success stories''"]
  have 4: "image_prompt_for (js ''customer success stories'')
       = generic_instruction (js ''customer success stories'')" by blast
  from a b' c 1 2 3 4 show ?thesis by blast
qed

section \<open>Content generator\<close>

lemma world_empty_fields [simp]:
  "files world_empty = (\<lambda>_. None)" "console world_empty = []" "reactions world_empty = []"
  "replies world_empty = []" "posted world_empty = []" "acks world_empty = 0"
  "responses world_empty = []" "chat_calls world_empty = []" "image_calls world_empty = []"
  "clock_reads world_empty = 0"
  by (simp_all add: world_empty_def)

lemma log_of_world_empty [simp]: "log_of e f world_empty = []"
  by (simp add: log_of_unfold)

text \<open>Both entry points, one case per outcome of the calls to the generation service.\<close>

lemma generateCustomContent_unfold:
  "generateCustomContent e request w =
     (let req = custom_request (custom_context (log_of e POSTS_FILE w)) request;
          w1 = w\<lparr>chat_calls := chat_calls w @ [req]\<rparr>
      in case chat_completion e req of
           Inl x \<Rightarrow>
             (Inr fallback_result, w1\<lparr>console := console w @ [(''OpenAI Error:'', x)]\<rparr>)
         | Inr content \<Rightarrow>
             (let ireq = custom_image_request request;
                  w2 = w1\<lparr>image_calls := image_calls w @ [ireq]\<rparr>
              in case image_generation e ireq of
                   Inl x \<Rightarrow>
                     (Inr \<lparr>textContent = content, imageUrl = None,
                           imagePrompt = image_prompt_for request\<rparr>,
                      w2\<lparr>console := console w @ [(''Image generation failed:'', x)]\<rparr>)
                 | Inr url \<Rightarrow>
                     (Inr \<lparr>textContent = content, imageUrl = Some url,
                           imagePrompt = image_prompt_for request\<rparr>, w2)))"
  by (simp add: generateCustomContent_def bindE_def catchE_def returnE_def console_error_def
      chat_completions_create_def images_generate_def loadData_log_of Let_def
      split: sum.splits)

lemma generateContentPrompt_unfold:
  "generateContentPrompt e w =
     (let req = daily_request (daily_context (log_of e POSTS_FILE w) (log_of e PROMPTS_FILE w));
          w1 = w\<lparr>chat_calls := chat_calls w @ [req]\<rparr>
      in case chat_completion e req of
           Inl x \<Rightarrow> (Inr daily_fallback, w1\<lparr>console := console w @ [(''Error generating prompt:'', x)]\<rparr>)
         | Inr content \<Rightarrow> (Inr content, w1))"
  by (simp add: generateContentPrompt_def bindE_def catchE_def returnE_def console_error_def
      chat_completions_create_def loadData_log_of Let_def split: sum.splits)


text \<open>
  Claim C8. When the text completion succeeds and the image call fails,
  \<open>generateCustomContent\<close> returns normally: \<open>textContent\<close> is the generated text (not the
  fallback), \<open>imageUrl\<close> is \<open>null\<close> and \<open>imagePrompt\<close> is the heuristic's instruction. Both
  calls were issued, and the image failure is one line on the console.
\<close>

theorem image_failure_keeps_text:
  "chat_completion e (custom_request (custom_context (log_of e POSTS_FILE w)) request) = Inr content
   \<Longrightarrow> image_generation e (custom_image_request request) = Inl x
   \<Longrightarrow> generateCustomContent e request w =
         (Inr \<lparr>textContent = content, imageUrl = None, imagePrompt = image_prompt_for request\<rparr>,
          w\<lparr>chat_calls := chat_calls w
                @ [custom_request (custom_context (log_of e POSTS_FILE w)) request],
            image_calls := image_calls w @ [custom_image_request request],
            console := console w @ [(''Image generation failed:'', x)]\<rparr>)"
  by (simp add: generateCustomContent_unfold Let_def)

theorem image_failure_keeps_text_witness:
  "chat_completion env_no_image
     (custom_request (custom_context (log_of env_no_image POSTS_FILE world_empty)) (js ''sms tips''))
     = Inr (js ''Generated idea'') \<and>
   image_generation env_no_image (custom_image_request (js ''sms tips''))
     = Inl (Error ''content_policy_violation'') \<and>
   generateCustomContent env_no_image (js ''sms tips'') world_empty =
     (Inr \<lparr>textContent = js ''Generated idea'', imageUrl = None,
           imagePrompt = generic_instruction (js ''sms tips'')\<rparr>,
      world_empty
        \<lparr>chat_calls := [custom_request identity_sentence (js ''sms tips'')],
         image_calls := [custom_image_request (js ''sms tips'')],
         console := [(''Image generation failed:'', Error ''content_policy_violation'')]\<rparr>)"
proof -
  have p: "image_prompt_for (js ''sms tips'') = generic_instruction (js ''sms tips'')"
    by code_simp
  have c: "custom_context [] = identity_sentence"
    by (simp add: custom_context_def)
  have 1: "chat_completion env_no_image
     (custom_request (custom_context (log_of env_no_image POSTS_FILE world_empty)) (js ''sms tips''))
     = Inr (js ''Generated idea'')"
    by (simp add: env_no_image_def env_ok_def)
  have 2: "image_generation env_no_image (custom_image_request (js ''sms tips''))
     = Inl (Error ''content_policy_violation'')"
    by (simp add: env_no_image_def env_ok_def)
  from image_failure_keeps_text [OF 1 2] 1 2 show ?thesis
    by (simp add: p c)
qed



section \<open>Custom command with an empty request\<close>

lemma linkedin_machine_handler_usage:
  assumes "trim (cmd_text command) = []"
  shows "linkedin_machine_handler e command w =
     (case ack_error e of
        Some x \<Rightarrow> (Inl x, w)
      | None \<Rightarrow>
          (case respond_error e usage_hint of
             None \<Rightarrow> (Inr (), w\<lparr>acks := Suc (acks w), responses := responses w @ [usage_hint]\<rparr>)
           | Some x \<Rightarrow>
               (let w1 = w\<lparr>acks := Suc (acks w),
                            console := console w @ [(''Error generating custom content:'', x)]\<rparr>
                in case respond_error e
                          (js ''Sorry, I had trouble generating that content. Please try again!'') of
                     None \<Rightarrow>
                       (Inr (), w1\<lparr>responses := responses w @
                          [js ''Sorry, I had trouble generating that content. Please try again!'']\<rparr>)
                   | Some y \<Rightarrow> (Inl y, w1))))"
  using assms
  by (simp add: linkedin_machine_handler_def bindE_def catchE_def ack_def respond_def
      console_error_def Let_def split: option.splits)

text \<open>
  Claim C4. When the request text of the custom command is empty after trimming, no call
  goes to the generation service, no file changes (so no record is appended) and nothing is
  posted to the channel; when the acknowledgement and the response are accepted, the handler
  returns normally and its one response is the usage hint. Empty after trimming is the
  same as made of white space only (\<open>trim_empty_iff\<close>), the white space of JavaScript's
  \<open>trim\<close>: the sample request is a space, a no-break space, an ideographic space, a byte
  order mark and a line feed.
\<close>

theorem empty_request_is_rejected:
  "trim (cmd_text command) = [] \<Longrightarrow>
     chat_calls (snd (linkedin_machine_handler e command w)) = chat_calls w \<and>
     image_calls (snd (linkedin_machine_handler e command w)) = image_calls w \<and>
     files (snd (linkedin_machine_handler e command w)) = files w \<and>
     posted (snd (linkedin_machine_handler e command w)) = posted w \<and>
     (ack_error e = None \<and> respond_error e usage_hint = None \<longrightarrow>
        linkedin_machine_handler e command w =
          (Inr (), w\<lparr>acks := Suc (acks w), responses := responses w @ [usage_hint]\<rparr>))"
  by (simp add: linkedin_machine_handler_usage Let_def split: option.splits)

theorem empty_request_is_rejected_witness:
  "trim (cmd_text blank_command) = [] \<and>
   ack_error env_ok = None \<and> respond_error env_ok usage_hint = None \<and>
   linkedin_machine_handler env_ok blank_command world_empty =
     (Inr (), world_empty\<lparr>acks := 1, responses := [usage_hint]\<rparr>)"
proof -
  have t: "trim (cmd_text blank_command) = []"
    by (simp add: blank_command_def trim_def is_space_def js_def)
  from empty_request_is_rejected [OF t, of env_ok world_empty] t
  show ?thesis by (simp add: env_ok_def world_empty_def)
qed

section \<open>Context builder\<close>

text \<open>
  The tail taken from a log is its end, in the order of the log, and at most \<open>n\<close> long.
  Each context is the identity sentence followed, for a log that is not empty, by a header
  and one line per record of the tail, in that order.
\<close>

lemma slice_last_suffix: "\<exists>ys. xs = ys @ slice_last n xs"
  unfolding slice_last_def by (metis append_take_drop_id)

lemma length_slice_last: "length (slice_last n xs) = min n (length xs)"
  by (simp add: slice_last_def)

lemma foldl_custom_context_step:
  "foldl custom_context_step acc posts = acc @ concat (map custom_line posts)"
  by (induction posts arbitrary: acc)
    (simp_all add: custom_context_step_def custom_line_def split: option.splits jsval.splits)

lemma foldl_daily_posts_step:
  "foldl daily_posts_step acc posts = acc @ concat (map content_line posts)"
  by (induction posts arbitrary: acc) (simp_all add: daily_posts_step_def content_line_def)

lemma foldl_daily_prompts_step:
  "foldl daily_prompts_step acc prompts = acc @ concat (map content_line prompts)"
  by (induction prompts arbitrary: acc) (simp_all add: daily_prompts_step_def content_line_def)

lemma custom_context_eq:
  "custom_context posts =
     identity_sentence @
     (if posts = [] then []
      else js ''\<newline>'' @ js ''\<newline>'' @ js ''Recent team posts:\<newline>''
           @ concat (map custom_line (slice_last 5 posts)))"
  by (simp add: custom_context_def foldl_custom_context_step Let_def)

lemma daily_context_eq:
  "daily_context posts prompts =
     identity_sentence @
     (if posts = [] then []
      else js ''\<newline>'' @ js ''\<newline>'' @
           js ''Here are some recent successful posts from the team:\<newline>''
           @ concat (map content_line (slice_last 10 posts))) @
     (if prompts = [] then []
      else js ''\<newline>'' @ js ''\<newline>'' @ js ''Avoid repeating these recent prompts:\<newline>''
           @ concat (map content_line (slice_last 5 prompts)))"
  by (simp add: daily_context_def foldl_daily_posts_step foldl_daily_prompts_step Let_def)

lemma shared_post_has_no_content: "get_prop (shared_post url message now) ''content'' = None"
  by (simp add: shared_post_def get_prop_def split: option.splits)

lemma shared_post_content_line:
  "content_line (shared_post url message now) = js ''- undefined\<newline>''"
  by (simp add: content_line_def shared_post_has_no_content template_def js_def)

lemma shared_post_messageText:
  "get_prop (shared_post url message now) ''messageText'' = map_option JString (msg_text message)"
  by (simp add: shared_post_def get_prop_def split: option.splits)

text \<open>In the custom context a record of the listener shows the start of its message.\<close>

lemma shared_post_custom_line:
  "custom_line (shared_post url message now) =
     (case msg_text message of
        None \<Rightarrow> []
      | Some t \<Rightarrow> if t \<noteq> [] then js ''- '' @ take 100 t @ js ''\<newline>'' else [])"
  by (simp add: custom_line_def shared_post_messageText substring0_def split: option.splits)

text \<open>In the scheduled context a record of the prompts log shows its content.\<close>

lemma prompt_content_lines:
  "content_line (daily_record result_ts prompt now channelId) = js ''- '' @ prompt @ js ''\<newline>''"
  "content_line (custom_record rec_id result request now channelId)
     = js ''- '' @ textContent result @ js ''\<newline>''"
  by (simp_all add: content_line_def daily_record_def custom_record_def get_prop_def template_def)

text \<open>
  The scheduled context over a log that the listener wrote: no record of it has a \<open>content\<close>
  property, so every line reads \<open>undefined\<close>.
\<close>

lemma scheduled_context_of_shared_posts:
  assumes "posts \<noteq> []" and "\<forall>p \<in> set posts. \<exists>url message now. p = shared_post url message now"
  shows "daily_context posts [] =
     identity_sentence @ js ''\<newline>'' @ js ''\<newline>'' @
     js ''Here are some recent successful posts from the team:\<newline>'' @
     concat (replicate (min 10 (length posts)) (js ''- undefined\<newline>''))"
proof -
  obtain ys where ys: "posts = ys @ slice_last 10 posts"
    using slice_last_suffix by blast
  have sub: "set (slice_last 10 posts) \<subseteq> set posts"
    by (subst (2) ys) simp
  have line: "content_line p = js ''- undefined\<newline>''" if "p \<in> set (slice_last 10 posts)" for p
  proof -
    from that sub have "p \<in> set posts" by blast
    with assms(2) obtain url message now where "p = shared_post url message now" by blast
    then show ?thesis by (simp add: shared_post_content_line)
  qed
  have "map content_line (slice_last 10 posts)
      = map (\<lambda>_. (js ''- undefined\<newline>'')) (slice_last 10 posts)"
    by (rule map_cong) (simp_all add: line)
  then have "map content_line (slice_last 10 posts)
      = replicate (length (slice_last 10 posts)) (js ''- undefined\<newline>'')"
    by (simp add: map_replicate_const)
  with assms(1) show ?thesis
    by (simp add: daily_context_eq length_slice_last)
qed

text \<open>
  Claim C5. The context builder appends a bounded tail of each log to the identity sentence:
  the scheduled context is to contain the text of the last 10 posts and the content of the
  last 5 prompts, the custom context the first 100 code units of the \<open>messageText\<close> of the
  last 5 posts, oldest of the tail first. The lemmas above give the tails, their order, the
  prompts and the custom context as claimed. The posts of the scheduled context are read
  through \<open>post.content\<close>, a property that no record of the posts log has: run on the log
  that the listener wrote for one shared link, the context sent to the generation service
  has the line \<open>- undefined\<close> and nothing of the post.
\<close>

theorem scheduled_context_drops_post_text:
  "chat_calls (snd (generateContentPrompt env_ok
       (snd (message_handler env_ok sample_message world_empty)))) =
     [daily_request
        (identity_sentence @ js ''\<newline>'' @ js ''\<newline>'' @
         js ''Here are some recent successful posts from the team:\<newline>'' @
         js ''- undefined\<newline>'')]"
proof -
  let ?w = "snd (message_handler env_ok sample_message world_empty)"
  have r: "reactions_add_error env_ok r = None" "say_error env_ok p = None"
    "\<not> unwritable env_ok f" "\<not> unreadable env_ok f" for r p f
    by (simp_all add: env_ok_def)
  have w: "?w = world_empty
      \<lparr>reactions := [Reaction (msg_channel sample_message) (msg_ts sample_message) (js ''link'')],
       clock_reads := 1,
       files := [POSTS_FILE \<mapsto>
          Json [shared_post (js ''https://linkedin.com/posts/abc123-xyz'') sample_message
                  (toISOString_at env_ok 0)]],
       replies := [encouragement [js ''https://linkedin.com/posts/abc123-xyz''] sample_message]\<rparr>"
    by (simp add: message_handler_urls [OF sample_links] r enumerate_simps)
  have posts: "log_of env_ok POSTS_FILE ?w =
      [shared_post (js ''https://linkedin.com/posts/abc123-xyz'') sample_message
         (toISOString_at env_ok 0)]"
    unfolding w by (simp add: log_of_unfold r)
  have prompts: "log_of env_ok PROMPTS_FILE ?w = []"
    unfolding w by (simp add: log_of_unfold r POSTS_FILE_def PROMPTS_FILE_def)
  have c: "chat_calls ?w = []"
    unfolding w by simp
  show ?thesis
    by (simp add: generateContentPrompt_unfold posts prompts c daily_context_eq slice_last_def
        shared_post_content_line Let_def split: sum.splits)
qed

end
